theory Spec2Isabelle
  imports Complex_Main
begin

section \<open>Sensor readings as JavaScript values\<close>

text \<open>
  The alert manager (\<^verbatim>\<open>supabase/functions/alert-manager/index.ts\<close>) reads the fields
  \<^verbatim>\<open>flame\<close>, \<^verbatim>\<open>gas\<close> and \<^verbatim>\<open>temperature\<close> of an untyped object that arrived as JSON.
  A field is therefore a JSON primitive, or \<^verbatim>\<open>undefined\<close> when it is absent. A JSON number
  is a finite double, that is, a rational; arrays and objects are not modelled as field
  values.
\<close>

datatype jsval = JUndefined | JNull | JBool bool | JNum rat | JStr string

text \<open>
  The result of the language's \<^verbatim>\<open>ToNumber\<close> conversion. Converting a string parses a
  numeric literal and rounds it to a double; that conversion (\<^verbatim>\<open>StringToNumber\<close>) is a
  parameter \<open>S\<close> of the model, so every theorem holds for whatever it returns.
\<close>

datatype jsnum = NaN | NegInfinity | Finite rat | PosInfinity

fun ToNumber :: "(string \<Rightarrow> jsnum) \<Rightarrow> jsval \<Rightarrow> jsnum" where
  "ToNumber S JUndefined = NaN"
| "ToNumber S JNull = Finite 0"
| "ToNumber S (JBool b) = Finite (if b then 1 else 0)"
| "ToNumber S (JNum q) = Finite q"
| "ToNumber S (JStr s) = S s"

text \<open>\<^verbatim>\<open>x > c\<close> for a finite number \<open>c\<close>, after \<open>x\<close> has been converted.\<close>

fun num_gt :: "jsnum \<Rightarrow> rat \<Rightarrow> bool" where
  "num_gt NaN c = False"
| "num_gt NegInfinity c = False"
| "num_gt (Finite q) c = (c < q)"
| "num_gt PosInfinity c = True"

text \<open>
  The relational operator \<^verbatim>\<open>v > c\<close> of the source, whose right operand is a number
  literal: the left operand is converted to a number and compared.
\<close>

definition js_gt :: "(string \<Rightarrow> jsnum) \<Rightarrow> jsval \<Rightarrow> rat \<Rightarrow> bool" where
  "js_gt S v c = num_gt (ToNumber S v) c"

record sensors =
  temperature :: jsval
  gas :: jsval
  flame :: jsval

section \<open>The threshold checks of the evaluate action\<close>

text \<open>
  Lines 62 to 86 of the alert manager. The two variables \<^verbatim>\<open>alertType\<close> (initially
  \<^verbatim>\<open>null\<close>) and \<^verbatim>\<open>severity\<close> (initially \<^verbatim>\<open>'critical'\<close>) are the result.
\<close>

definition temperature_critical :: rat where
  "temperature_critical = 35"

definition gas_critical :: rat where
  "gas_critical = 400"

definition threshold_check :: "(string \<Rightarrow> jsnum) \<Rightarrow> sensors \<Rightarrow> string option \<times> string" where
  "threshold_check S sv =
     (if flame sv = JStr ''FLAME'' then (Some ''fire'', ''critical'')
      else if js_gt S (gas sv) gas_critical then (Some ''gas_leak'', ''critical'')
      else if js_gt S (temperature sv) temperature_critical then (Some ''temperature'', ''critical'')
      else (None, ''critical''))"

text \<open>Truthiness of \<^verbatim>\<open>alertType\<close> in \<^verbatim>\<open>if (alertType)\<close>: not \<^verbatim>\<open>null\<close> and not empty.\<close>

fun truthy :: "string option \<Rightarrow> bool" where
  "truthy None = False"
| "truthy (Some s) = (s \<noteq> [])"

section \<open>The alert table and the world around one request\<close>

text \<open>
  A row of the \<^verbatim>\<open>alerts\<close> table. Times are milliseconds since the epoch, the unit of
  \<^verbatim>\<open>Date.now()\<close>; the table keeps its rows in a list.
\<close>

record alert =
  alert_id :: string
  location_id :: string
  alert_type :: string
  severity :: string
  status :: string
  sensor_values :: sensors
  timestamp :: int
  resolved_at :: "int option"
  resolved_by :: "string option"

text \<open>The body of the telemetry service's answer, \<^verbatim>\<open>sensorData\<close>.\<close>

record sensor_reply =
  success :: bool
  data :: "sensors option"

text \<open>
  Everything the handler obtains from outside while it serves one request: the errors
  its collaborators report, the telemetry answer, the clock readings, the id the store
  gives a new row, and the user an access token belongs to.
\<close>

record world =
  locationError :: "string option"
  sensorError :: bool
  sensorData :: "sensor_reply option"
  now_lookup :: int
  lookupError :: bool
  now_write :: int
  new_id :: string
  writeError :: "string option"
  getUser :: "string \<Rightarrow> string option"

datatype failure =
    StoreError string
  | NotSingle
  | NoAuthorizationHeader
  | Unauthorized
  | InvalidAction

text \<open>One constructor for each \<^verbatim>\<open>return new Response\<close> of the handler.\<close>

datatype response =
    Preflight
  | NoSensorData
  | AlertUpdated alert
  | AlertCreated alert
  | NormalRange sensors
  | StatusUpdated
  | Failure failure

fun http_status :: "response \<Rightarrow> nat" where
  "http_status (Failure e) = 400"
| "http_status r = 200"

text \<open>The \<^verbatim>\<open>success\<close> and \<^verbatim>\<open>message\<close> members of the response body.\<close>

fun body_success :: "response \<Rightarrow> bool option" where
  "body_success Preflight = None"
| "body_success (Failure e) = Some False"
| "body_success r = Some True"

fun body_message :: "response \<Rightarrow> string option" where
  "body_message NoSensorData = Some ''No sensor data available''"
| "body_message (NormalRange sv) = Some ''All sensors within normal range''"
| "body_message StatusUpdated = Some ''Alert updated successfully''"
| "body_message r = None"

text \<open>\<^verbatim>\<open>.single()\<close>: exactly one row, or an error.\<close>

fun single :: "'a list \<Rightarrow> 'a option" where
  "single [x] = Some x"
| "single xs = None"

text \<open>\<^verbatim>\<open>.order('timestamp', { ascending: false }).limit(1)\<close>: a row of greatest timestamp.\<close>

fun latest :: "alert list \<Rightarrow> alert option" where
  "latest [] = None"
| "latest (a # as) =
     (case latest as of
        None \<Rightarrow> Some a
      | Some m \<Rightarrow> if timestamp a < timestamp m then Some m else Some a)"

definition oneHourAgo :: "int \<Rightarrow> int" where
  "oneHourAgo now = now - 60 * 60 * 1000"

text \<open>Lines 92 to 99: the most recent row of the location that is not older than the bound.\<close>

definition select_existing :: "alert list \<Rightarrow> string \<Rightarrow> int \<Rightarrow> alert option" where
  "select_existing tbl locationId since =
     latest (filter (\<lambda>a. location_id a = locationId \<and> since \<le> timestamp a) tbl)"

text \<open>\<^verbatim>\<open>.update(f).eq('id', i)\<close>: the new table and the rows that were changed.\<close>

definition update_eq_id :: "alert list \<Rightarrow> string \<Rightarrow> (alert \<Rightarrow> alert) \<Rightarrow> alert list \<times> alert list" where
  "update_eq_id tbl i f =
     (map (\<lambda>a. if alert_id a = i then f a else a) tbl,
      map f (filter (\<lambda>a. alert_id a = i) tbl))"

section \<open>The evaluate action\<close>

text \<open>Lines 101 to 124. A failed write leaves the table as it was.\<close>

definition update_existing ::
  "world \<Rightarrow> alert list \<Rightarrow> alert \<Rightarrow> string \<Rightarrow> string \<Rightarrow> sensors \<Rightarrow> alert list \<times> response" where
  "update_existing w tbl existingAlert alertType sev sv =
     (case writeError w of
        Some e \<Rightarrow> (tbl, Failure (StoreError e))
      | None \<Rightarrow>
          (case update_eq_id tbl (alert_id existingAlert)
                  (\<lambda>a. a\<lparr>alert_type := alertType, severity := sev,
                          sensor_values := sv, timestamp := now_write w\<rparr>) of
             (tbl', rows) \<Rightarrow>
               (case single rows of
                  None \<Rightarrow> (tbl, Failure NotSingle)
                | Some updatedAlert \<Rightarrow> (tbl', AlertUpdated updatedAlert))))"

text \<open>Lines 125 to 150.\<close>

definition insert_new ::
  "world \<Rightarrow> alert list \<Rightarrow> string \<Rightarrow> string \<Rightarrow> string \<Rightarrow> sensors \<Rightarrow> alert list \<times> response" where
  "insert_new w tbl locationId alertType sev sv =
     (case writeError w of
        Some e \<Rightarrow> (tbl, Failure (StoreError e))
      | None \<Rightarrow>
          (let newAlert = \<lparr>alert_id = new_id w, location_id = locationId,
                 alert_type = alertType, severity = sev, status = ''active'',
                 sensor_values = sv, timestamp = now_write w,
                 resolved_at = None, resolved_by = None\<rparr>
           in (tbl @ [newAlert], AlertCreated newAlert)))"

text \<open>
  Line 51, \<^verbatim>\<open>sensorError || !sensorData?.success || !sensorData?.data\<close>: the reading, when
  there is one to evaluate.
\<close>

definition available_sensors :: "world \<Rightarrow> sensors option" where
  "available_sensors w =
     (if sensorError w then None
      else case sensorData w of
             None \<Rightarrow> None
           | Some reply \<Rightarrow> if success reply then data reply else None)"

text \<open>Lines 31 to 158. The lookup's own error is ignored by the source: its data is then null.\<close>

definition evaluate ::
  "(string \<Rightarrow> jsnum) \<Rightarrow> world \<Rightarrow> string \<Rightarrow> alert list \<Rightarrow> alert list \<times> response" where
  "evaluate S w locationId tbl =
     (case locationError w of
        Some e \<Rightarrow> (tbl, Failure (StoreError e))
      | None \<Rightarrow>
          (case available_sensors w of
             None \<Rightarrow> (tbl, NoSensorData)
           | Some sv \<Rightarrow>
               (case threshold_check S sv of
                  (alertType, sev) \<Rightarrow>
                    (case alertType of
                       None \<Rightarrow> (tbl, NormalRange sv)
                     | Some ty \<Rightarrow>
                         if \<not> truthy alertType then (tbl, NormalRange sv)
                         else
                           (case (if lookupError w then None
                                  else select_existing tbl locationId (oneHourAgo (now_lookup w))) of
                              Some existingAlert \<Rightarrow> update_existing w tbl existingAlert ty sev sv
                            | None \<Rightarrow> insert_new w tbl locationId ty sev sv)))))"

section \<open>The update action\<close>

text \<open>\<^verbatim>\<open>h.replace(p, '')\<close> with a string pattern: the first occurrence of \<open>p\<close> is removed.\<close>

fun remove_first :: "string \<Rightarrow> string \<Rightarrow> string" where
  "remove_first p [] = []"
| "remove_first p (c # cs) =
     (if take (length p) (c # cs) = p then drop (length p) (c # cs)
      else c # remove_first p cs)"

text \<open>Lines 160 to 185. \<^verbatim>\<open>!authHeader\<close> holds for a missing and for an empty header.\<close>

definition update_status ::
  "world \<Rightarrow> string option \<Rightarrow> string \<Rightarrow> string \<Rightarrow> alert list \<Rightarrow> alert list \<times> response" where
  "update_status w authHeader alertId st tbl =
     (case authHeader of
        None \<Rightarrow> (tbl, Failure NoAuthorizationHeader)
      | Some h \<Rightarrow>
          if h = [] then (tbl, Failure NoAuthorizationHeader)
          else
            (case getUser w (remove_first ''Bearer '' h) of
               None \<Rightarrow> (tbl, Failure Unauthorized)
             | Some user \<Rightarrow>
                 (case writeError w of
                    Some e \<Rightarrow> (tbl, Failure (StoreError e))
                  | None \<Rightarrow>
                      (fst (update_eq_id tbl alertId
                         (\<lambda>a. a\<lparr>status := st,
                                 resolved_at := (if st \<noteq> ''active'' then Some (now_write w) else None),
                                 resolved_by := (if st \<noteq> ''active'' then Some user else None)\<rparr>)),
                       StatusUpdated))))"

section \<open>The request handler\<close>

record request =
  http_method :: string
  authorization :: "string option"
  action :: string
  locationId :: string
  alertId :: string
  new_status :: string

text \<open>Lines 16 to 203; \<open>new_status\<close> is the \<^verbatim>\<open>status\<close> member of the request body.\<close>

definition serve ::
  "(string \<Rightarrow> jsnum) \<Rightarrow> world \<Rightarrow> request \<Rightarrow> alert list \<Rightarrow> alert list \<times> response" where
  "serve S w req tbl =
     (if http_method req = ''OPTIONS'' then (tbl, Preflight)
      else if action req = ''evaluate'' then evaluate S w (locationId req) tbl
      else if action req = ''update'' then
        update_status w (authorization req) (alertId req) (new_status req) tbl
      else (tbl, Failure InvalidAction))"

section \<open>The notification listeners\<close>

text \<open>
  \<^verbatim>\<open>payload.new\<close> of a change-feed event, with the members the listeners read. A status or
  a severity may be null.
\<close>

record row =
  r_id :: string
  r_status :: "string option"
  r_alert_type :: string
  r_location_id :: string
  r_severity :: "string option"

text \<open>The \<^verbatim>\<open>switch\<close> on \<^verbatim>\<open>alert.alert_type\<close> that chooses the toast's title.\<close>

datatype title = FIRE_DETECTED | GAS_LEAK_DETECTED | HIGH_TEMPERATURE | ALERT

definition title_of :: "string \<Rightarrow> title" where
  "title_of ty =
     (if ty = ''fire'' then FIRE_DETECTED
      else if ty = ''gas_leak'' then GAS_LEAK_DETECTED
      else if ty = ''temperature'' then HIGH_TEMPERATURE
      else ALERT)"

text \<open>
  What a listener does to the presentation layer. \<open>Toast h k t n v\<close> is a call of
  \<^verbatim>\<open>toast\<close> that returned the handle \<open>h\<close>, for the alert \<open>k\<close> its button leads to, with the
  title \<open>t\<close>, the location name \<open>n\<close> and the severity \<open>v\<close> in its description;
  \<open>Dismiss h\<close> is a call of the \<^verbatim>\<open>dismiss\<close> of the handle \<open>h\<close>; \<open>ToastCustom k\<close> and
  \<open>DismissKey k\<close> are \<^verbatim>\<open>toast.custom\<close> and \<^verbatim>\<open>toast.dismiss\<close> of the keyed toast library;
  \<open>PlayAudio\<close> is the attempt to play the alert sound.
\<close>

datatype effect =
    Toast nat string title string string
  | Dismiss nat
  | ToastCustom string
  | DismissKey string
  | PlayAudio

text \<open>\<^verbatim>\<open>location?.name || 'Unknown Location'\<close>.\<close>

fun locationName :: "string option \<Rightarrow> string" where
  "locationName None = ''Unknown Location''"
| "locationName (Some n) = (if n = [] then ''Unknown Location'' else n)"

subsection \<open>\<^verbatim>\<open>src/components/GlobalAlertListener.tsx\<close>\<close>

record listener =
  shownAlerts :: "string set"
  effects :: "effect list"

text \<open>
  \<^verbatim>\<open>handleAlert\<close> up to its \<^verbatim>\<open>await\<close> (lines 12 to 41). The second component is the alert
  whose handler now waits for the location's name.
\<close>

definition handleAlert :: "listener \<Rightarrow> row \<Rightarrow> bool \<Rightarrow> listener \<times> row option" where
  "handleAlert s alert isUpdate =
     (let alertId = r_id alert in
      if isUpdate then
        (if r_status alert = Some ''solved'' \<or> r_status alert = Some ''unsolved''
         then (s\<lparr>shownAlerts := shownAlerts s - {alertId}\<rparr>, None)
         else (s, None))
      else if alertId \<in> shownAlerts s then (s, None)
      else if r_status alert = Some ''solved'' \<or> r_status alert = Some ''unsolved''
      then (s, None)
      else (s\<lparr>shownAlerts := insert alertId (shownAlerts s)\<rparr>, Some alert))"

text \<open>
  The rest of \<^verbatim>\<open>handleAlert\<close> (lines 50 to 92), run when the name \<open>loc\<close> has arrived;
  \<open>h\<close> is the handle \<^verbatim>\<open>toast\<close> returns. \<^verbatim>\<open>alert.severity.toUpperCase()\<close> throws on a null
  severity, before the toast is made.
\<close>

definition handleAlert_resume :: "listener \<Rightarrow> row \<Rightarrow> string option \<Rightarrow> nat \<Rightarrow> listener" where
  "handleAlert_resume s alert loc h =
     (case r_severity alert of
        None \<Rightarrow> s
      | Some sev \<Rightarrow>
          s\<lparr>effects := effects s @
               [Toast h (r_id alert) (title_of (r_alert_type alert)) (locationName loc) sev,
                PlayAudio]\<rparr>)"

subsection \<open>The listener that keeps its toasts' handles (\<^verbatim>\<open>unnamed/part_004\<close>, lines 1 to 122)\<close>

record listener_h = listener +
  alertToasts :: "string \<rightharpoonup> nat"

text \<open>\<^verbatim>\<open>(alert.status as string | null) ?? "active"\<close>.\<close>

fun status_or_active :: "string option \<Rightarrow> string" where
  "status_or_active None = ''active''"
| "status_or_active (Some st) = st"

definition handleAlert_h :: "listener_h \<Rightarrow> row option \<Rightarrow> listener_h \<times> row option" where
  "handleAlert_h s payload_new =
     (case payload_new of
        None \<Rightarrow> (s, None)
      | Some alert \<Rightarrow>
          (let alertId = r_id alert; st = status_or_active (r_status alert) in
           if st = ''resolved'' \<or> st = ''unsolved'' \<or> st = ''false_alarm'' then
             (case alertToasts s alertId of
                Some existing \<Rightarrow>
                  (s\<lparr>shownAlerts := shownAlerts s - {alertId},
                      effects := effects s @ [Dismiss existing],
                      alertToasts := (alertToasts s)(alertId := None)\<rparr>, None)
              | None \<Rightarrow> (s\<lparr>shownAlerts := shownAlerts s - {alertId}\<rparr>, None))
           else if st \<noteq> ''active'' \<and> st \<noteq> ''in_queue'' then (s, None)
           else if alertId \<in> shownAlerts s then (s, None)
           else (s\<lparr>shownAlerts := insert alertId (shownAlerts s)\<rparr>, Some alert)))"

text \<open>Lines 56 to 100: the severity is guarded here, \<^verbatim>\<open>String(alert.severity ?? "")\<close>.\<close>

definition handleAlert_h_resume :: "listener_h \<Rightarrow> row \<Rightarrow> string option \<Rightarrow> nat \<Rightarrow> listener_h" where
  "handleAlert_h_resume s alert loc h =
     s\<lparr>effects := effects s @
          [Toast h (r_id alert) (title_of (r_alert_type alert)) (locationName loc)
             (case r_severity alert of None \<Rightarrow> [] | Some sev \<Rightarrow> sev),
           PlayAudio],
        alertToasts := (alertToasts s)(r_id alert \<mapsto> h)\<rparr>"

subsection \<open>The listener keyed by location (\<^verbatim>\<open>unnamed/part_004\<close>, lines 123 to 279)\<close>

record listener_l =
  shownLocations :: "string set"
  effects_l :: "effect list"

definition showAlertToast :: "listener_l \<Rightarrow> row option \<Rightarrow> listener_l \<times> row option" where
  "showAlertToast s payload_new =
     (case payload_new of
        None \<Rightarrow> (s, None)
      | Some alert \<Rightarrow>
          (let locationId = r_location_id alert; st = status_or_active (r_status alert) in
           if st = ''resolved'' \<or> st = ''unsolved'' \<or> st = ''false_alarm'' then
             (s\<lparr>shownLocations := shownLocations s - {locationId},
                 effects_l := effects_l s @ [DismissKey locationId]\<rparr>, None)
           else if st \<noteq> ''active'' \<and> st \<noteq> ''in_queue'' then (s, None)
           else if locationId \<in> shownLocations s then (s, None)
           else (s\<lparr>shownLocations := insert locationId (shownLocations s)\<rparr>, Some alert)))"

definition showAlertToast_resume :: "listener_l \<Rightarrow> row \<Rightarrow> listener_l" where
  "showAlertToast_resume s alert =
     s\<lparr>effects_l := effects_l s @ [ToastCustom (r_location_id alert), PlayAudio]\<rparr>"

subsection \<open>Deliveries and their interleavings\<close>

text \<open>
  A listener runs on one thread: a delivery runs to its \<^verbatim>\<open>await\<close>, and the handlers that
  wait resume one at a time, in any order. \<open>Deliver\<close> is an event of the change feed,
  \<open>Resume i loc h\<close> lets the \<open>i\<close>-th waiting handler go on.
\<close>

datatype 'e step = Deliver 'e | Resume nat "string option" nat

fun run :: "listener \<times> row list \<Rightarrow> (row \<times> bool) step list \<Rightarrow> listener \<times> row list" where
  "run c [] = c"
| "run (s, waiting) (Deliver (alert, isUpdate) # steps) =
     (case handleAlert s alert isUpdate of
        (s', None) \<Rightarrow> run (s', waiting) steps
      | (s', Some a) \<Rightarrow> run (s', waiting @ [a]) steps)"
| "run (s, waiting) (Resume i loc h # steps) =
     (if i < length waiting
      then run (handleAlert_resume s (waiting ! i) loc h, take i waiting @ drop (Suc i) waiting) steps
      else run (s, waiting) steps)"

fun run_h :: "listener_h \<times> row list \<Rightarrow> (row option) step list \<Rightarrow> listener_h \<times> row list" where
  "run_h c [] = c"
| "run_h (s, waiting) (Deliver payload_new # steps) =
     (case handleAlert_h s payload_new of
        (s', None) \<Rightarrow> run_h (s', waiting) steps
      | (s', Some a) \<Rightarrow> run_h (s', waiting @ [a]) steps)"
| "run_h (s, waiting) (Resume i loc h # steps) =
     (if i < length waiting
      then run_h (handleAlert_h_resume s (waiting ! i) loc h, take i waiting @ drop (Suc i) waiting) steps
      else run_h (s, waiting) steps)"

text \<open>The calls of \<^verbatim>\<open>toast\<close> for one alert, and the attempts to play the sound.\<close>

fun is_show :: "string \<Rightarrow> effect \<Rightarrow> bool" where
  "is_show k (Toast h k' t n v) = (k' = k)"
| "is_show k e = False"

definition show_calls :: "string \<Rightarrow> effect list \<Rightarrow> nat" where
  "show_calls k es = length (filter (is_show k) es)"

definition audio_calls :: "effect list \<Rightarrow> nat" where
  "audio_calls es = length (filter (\<lambda>e. e = PlayAudio) es)"

text \<open>The calls that take a toast away.\<close>

fun is_dismiss :: "effect \<Rightarrow> bool" where
  "is_dismiss (Dismiss h) = True"
| "is_dismiss (DismissKey k) = True"
| "is_dismiss e = False"

section \<open>Sample data\<close>

text \<open>
  A clock reading \<open>10000000\<close>, one hour before it \<open>6400000\<close>; a row written 61 minutes
  before it and a row written 10 minutes before it.
\<close>

definition reading_flame :: sensors where
  "reading_flame = \<lparr>temperature = JNum 20, gas = JNum 50, flame = JStr ''FLAME''\<rparr>"

definition reading_border :: sensors where
  "reading_border = \<lparr>temperature = JNum 35, gas = JNum 400, flame = JStr ''NO FLAME''\<rparr>"

definition alert_a1 :: alert where
  "alert_a1 = \<lparr>alert_id = ''a1'', location_id = ''L1'', alert_type = ''gas_leak'',
     severity = ''critical'', status = ''active'',
     sensor_values = \<lparr>temperature = JNum 20, gas = JNum 450, flame = JStr ''NO FLAME''\<rparr>,
     timestamp = 6340000, resolved_at = None, resolved_by = None\<rparr>"

definition alert_a0 :: alert where
  "alert_a0 = \<lparr>alert_id = ''a0'', location_id = ''L1'', alert_type = ''gas_leak'',
     severity = ''critical'', status = ''resolved'',
     sensor_values = \<lparr>temperature = JNum 20, gas = JNum 450, flame = JStr ''NO FLAME''\<rparr>,
     timestamp = 9400000, resolved_at = Some 9500000, resolved_by = Some ''user-1''\<rparr>"

definition world_sample :: "sensors \<Rightarrow> world" where
  "world_sample sv = \<lparr>locationError = None, sensorError = False,
     sensorData = Some \<lparr>success = True, data = Some sv\<rparr>,
     now_lookup = 10000000, lookupError = False, now_write = 10000020, new_id = ''a2'',
     writeError = None, getUser = [''token'' \<mapsto> ''user-1'']\<rparr>"

definition world_down :: world where
  "world_down = \<lparr>locationError = None, sensorError = True, sensorData = None,
     now_lookup = 10000000, lookupError = False, now_write = 10000020, new_id = ''a2'',
     writeError = None, getUser = Map.empty\<rparr>"

text \<open>
  An event row for the alert \<open>a1\<close>, the same row with a null severity, and listeners
  that have shown nothing or have shown that alert with the toast handle \<open>7\<close>.
\<close>

definition row_r1 :: row where
  "row_r1 = \<lparr>r_id = ''a1'', r_status = Some ''active'', r_alert_type = ''fire'',
     r_location_id = ''L1'', r_severity = Some ''critical''\<rparr>"



definition listener_shown :: listener where
  "listener_shown = \<lparr>shownAlerts = {''a1''},
     effects = [Toast 7 ''a1'' FIRE_DETECTED ''Hall'' ''critical'', PlayAudio]\<rparr>"

definition listener_h_empty :: listener_h where
  "listener_h_empty = \<lparr>shownAlerts = {}, effects = [], alertToasts = Map.empty\<rparr>"

definition listener_h_shown :: listener_h where
  "listener_h_shown = \<lparr>shownAlerts = {''a1''},
     effects = [Toast 7 ''a1'' FIRE_DETECTED ''Hall'' ''critical'', PlayAudio],
     alertToasts = [''a1'' \<mapsto> 7]\<rparr>"

section \<open>Properties of the threshold checks\<close>

lemma js_gt_JNum: "js_gt S (JNum q) c = (c < q)"
  by (simp add: js_gt_def)

lemma threshold_check_severity: "snd (threshold_check S sv) = ''critical''"
  by (simp add: threshold_check_def)

lemma threshold_check_truthy:
  "threshold_check S sv = (Some ty, sev) \<Longrightarrow> ty \<noteq> [] \<and> sev = ''critical''"
  by (auto simp: threshold_check_def split: if_splits)

text \<open>
  C1. The checks are a chain in a fixed order: a reading whose flame field is the string
  \<^verbatim>\<open>FLAME\<close> is classified fire and critical whatever its gas and temperature are; otherwise
  a gas value above 400 gives gas_leak and critical; otherwise a temperature above 35 gives
  temperature and critical; otherwise there is no classification.
\<close>

theorem threshold_check_priority:
  "(flame sv = JStr ''FLAME'' \<longrightarrow> threshold_check S sv = (Some ''fire'', ''critical'')) \<and>
   (flame sv \<noteq> JStr ''FLAME'' \<and> js_gt S (gas sv) 400 \<longrightarrow>
      threshold_check S sv = (Some ''gas_leak'', ''critical'')) \<and>
   (flame sv \<noteq> JStr ''FLAME'' \<and> \<not> js_gt S (gas sv) 400 \<and> js_gt S (temperature sv) 35 \<longrightarrow>
      threshold_check S sv = (Some ''temperature'', ''critical'')) \<and>
   (flame sv \<noteq> JStr ''FLAME'' \<and> \<not> js_gt S (gas sv) 400 \<and> \<not> js_gt S (temperature sv) 35 \<longrightarrow>
      fst (threshold_check S sv) = None)"
  by (simp add: threshold_check_def gas_critical_def temperature_critical_def)

theorem threshold_check_priority_witness:
  "threshold_check (\<lambda>s. NaN) \<lparr>temperature = JNum 90, gas = JNum 900, flame = JStr ''FLAME''\<rparr>
     = (Some ''fire'', ''critical'') \<and>
   threshold_check (\<lambda>s. NaN) \<lparr>temperature = JNum 90, gas = JNum 401, flame = JStr ''NO FLAME''\<rparr>
     = (Some ''gas_leak'', ''critical'') \<and>
   threshold_check (\<lambda>s. NaN) \<lparr>temperature = JNum 36, gas = JNum 120, flame = JStr ''NO FLAME''\<rparr>
     = (Some ''temperature'', ''critical'') \<and>
   fst (threshold_check (\<lambda>s. NaN) \<lparr>temperature = JNum 21, gas = JNum 120, flame = JStr ''NO FLAME''\<rparr>)
     = None"
  using
    threshold_check_priority
      [of "\<lparr>temperature = JNum 90, gas = JNum 900, flame = JStr ''FLAME''\<rparr>" "\<lambda>s. NaN"]
    threshold_check_priority
      [of "\<lparr>temperature = JNum 90, gas = JNum 401, flame = JStr ''NO FLAME''\<rparr>" "\<lambda>s. NaN"]
    threshold_check_priority
      [of "\<lparr>temperature = JNum 36, gas = JNum 120, flame = JStr ''NO FLAME''\<rparr>" "\<lambda>s. NaN"]
    threshold_check_priority
      [of "\<lparr>temperature = JNum 21, gas = JNum 120, flame = JStr ''NO FLAME''\<rparr>" "\<lambda>s. NaN"]
  by (simp add: js_gt_JNum)

text \<open>
  C10. The fire check compares the flame field with the string \<^verbatim>\<open>FLAME\<close> by strict
  equality: the classification is fire exactly for that value, and for every other value
  (the boolean true, the string \<^verbatim>\<open>1\<close>, a number) the gas and temperature checks decide.
\<close>

theorem flame_exact:
  "(fst (threshold_check S sv) = Some ''fire'') = (flame sv = JStr ''FLAME'') \<and>
   (flame sv \<noteq> JStr ''FLAME'' \<longrightarrow>
      threshold_check S sv =
        (if js_gt S (gas sv) 400 then (Some ''gas_leak'', ''critical'')
         else if js_gt S (temperature sv) 35 then (Some ''temperature'', ''critical'')
         else (None, ''critical'')))"
  by (simp add: threshold_check_def gas_critical_def temperature_critical_def)

theorem flame_exact_witness:
  "threshold_check (\<lambda>s. NaN) \<lparr>temperature = JNum 20, gas = JNum 50, flame = JBool True\<rparr>
     = (None, ''critical'') \<and>
   threshold_check (\<lambda>s. NaN) \<lparr>temperature = JNum 20, gas = JNum 450, flame = JStr ''1''\<rparr>
     = (Some ''gas_leak'', ''critical'') \<and>
   threshold_check (\<lambda>s. NaN) \<lparr>temperature = JNum 40, gas = JNum 50, flame = JNum 1\<rparr>
     = (Some ''temperature'', ''critical'')"
  using
    flame_exact [of "\<lambda>s. NaN" "\<lparr>temperature = JNum 20, gas = JNum 50, flame = JBool True\<rparr>"]
    flame_exact [of "\<lambda>s. NaN" "\<lparr>temperature = JNum 20, gas = JNum 450, flame = JStr ''1''\<rparr>"]
    flame_exact [of "\<lambda>s. NaN" "\<lparr>temperature = JNum 40, gas = JNum 50, flame = JNum 1\<rparr>"]
  by (simp add: js_gt_JNum)

section \<open>Properties of the evaluate action\<close>

lemma evaluate_normal:
  assumes "locationError w = None" and "available_sensors w = Some sv"
    and "fst (threshold_check S sv) = None"
  shows "evaluate S w loc tbl = (tbl, NormalRange sv)"
proof -
  obtain sev where "threshold_check S sv = (None, sev)"
    using assms(3) by (cases "threshold_check S sv") simp
  then show ?thesis
    using assms(1,2) by (simp add: evaluate_def)
qed

lemma evaluate_classified:
  assumes "locationError w = None" and "available_sensors w = Some sv"
    and "threshold_check S sv = (Some ty, sev)"
  shows "evaluate S w loc tbl =
     (case (if lookupError w then None
            else select_existing tbl loc (oneHourAgo (now_lookup w))) of
        Some existingAlert \<Rightarrow> update_existing w tbl existingAlert ty sev sv
      | None \<Rightarrow> insert_new w tbl loc ty sev sv)"
proof -
  have "ty \<noteq> []"
    using threshold_check_truthy [OF assms(3)] by simp
  then show ?thesis
    using assms by (simp add: evaluate_def)
qed

lemma evaluate_unclassified:
  "locationError w \<noteq> None \<or> available_sensors w = None \<or>
     (\<exists>sv. available_sensors w = Some sv \<and> fst (threshold_check S sv) = None) \<Longrightarrow>
   \<exists>r. evaluate S w loc tbl = (tbl, r) \<and> (\<forall>a. r \<noteq> AlertCreated a \<and> r \<noteq> AlertUpdated a)"
  by (auto simp: evaluate_def split: option.splits prod.splits)

lemma available_sensors_None:
  "(available_sensors w = None) =
     (sensorError w \<or> sensorData w = None \<or>
      (\<exists>reply. sensorData w = Some reply \<and> (\<not> success reply \<or> data reply = None)))"
  by (auto simp: available_sensors_def split: option.splits)

lemma available_sensors_sample: "available_sensors (world_sample sv) = Some sv"
  by (simp add: available_sensors_def world_sample_def)

text \<open>
  C7. The comparisons are strict: a reading without the flame value, whose gas is not above
  400 and whose temperature is exactly 35, gets no classification, and the evaluate action
  answers that all sensors are in their normal range and leaves the table as it is.
\<close>

theorem strict_thresholds:
  assumes "flame sv \<noteq> JStr ''FLAME''" and "\<not> js_gt S (gas sv) 400"
    and "temperature sv = JNum 35"
  shows "threshold_check S sv = (None, ''critical'') \<and>
     (locationError w = None \<and> available_sensors w = Some sv \<longrightarrow>
        evaluate S w loc tbl = (tbl, NormalRange sv))"
proof -
  have none: "threshold_check S sv = (None, ''critical'')"
    using assms
    by (simp add: threshold_check_def gas_critical_def temperature_critical_def js_gt_def)
  then have "evaluate S w loc tbl = (tbl, NormalRange sv)"
    if "locationError w = None" "available_sensors w = Some sv"
    using evaluate_normal [OF that] by simp
  with none show ?thesis by simp
qed

theorem strict_thresholds_witness:
  "threshold_check (\<lambda>s. NaN) reading_border = (None, ''critical'') \<and>
   evaluate (\<lambda>s. NaN) (world_sample reading_border) ''L1'' [alert_a0] =
     ([alert_a0], NormalRange reading_border)"
proof -
  have f: "flame reading_border \<noteq> JStr ''FLAME''"
    by (simp add: reading_border_def)
  have g: "\<not> js_gt (\<lambda>s. NaN) (gas reading_border) 400"
    by (simp add: reading_border_def js_gt_JNum)
  have t: "temperature reading_border = JNum 35"
    by (simp add: reading_border_def)
  have "locationError (world_sample reading_border) = None"
    by (simp add: world_sample_def)
  then show ?thesis
    using strict_thresholds [OF f g t, of "world_sample reading_border" "''L1''" "[alert_a0]"]
      available_sensors_sample [of reading_border]
    by simp
qed

text \<open>
  C8. When the telemetry fetch reports an error, or its answer is missing, is not a
  success or carries no data, the evaluate action changes no row of the table and answers
  with status 200, \<^verbatim>\<open>success: true\<close> and the message that no sensor data is available.
\<close>

theorem no_sensor_data_soft:
  assumes "locationError w = None"
    and "sensorError w \<or> sensorData w = None \<or>
      (\<exists>reply. sensorData w = Some reply \<and> (\<not> success reply \<or> data reply = None))"
  shows "evaluate S w loc tbl = (tbl, NoSensorData) \<and>
     http_status NoSensorData = 200 \<and> body_success NoSensorData = Some True \<and>
     body_message NoSensorData = Some ''No sensor data available''"
proof -
  have "available_sensors w = None"
    using assms(2) by (simp add: available_sensors_None)
  then show ?thesis
    using assms(1) by (simp add: evaluate_def)
qed

theorem no_sensor_data_soft_witness:
  "evaluate (\<lambda>s. NaN) world_down ''L1'' [alert_a0] = ([alert_a0], NoSensorData) \<and>
   evaluate (\<lambda>s. NaN)
       ((world_sample reading_flame)\<lparr>sensorData := Some \<lparr>success = False, data = Some reading_flame\<rparr>\<rparr>)
       ''L1'' [alert_a0] = ([alert_a0], NoSensorData) \<and>
   evaluate (\<lambda>s. NaN)
       ((world_sample reading_flame)\<lparr>sensorData := Some \<lparr>success = True, data = None\<rparr>\<rparr>)
       ''L1'' [alert_a0] = ([alert_a0], NoSensorData)"
  using
    no_sensor_data_soft [of world_down "\<lambda>s. NaN" "''L1''" "[alert_a0]"]
    no_sensor_data_soft
      [of "(world_sample reading_flame)\<lparr>sensorData := Some \<lparr>success = False, data = Some reading_flame\<rparr>\<rparr>"
          "\<lambda>s. NaN" "''L1''" "[alert_a0]"]
    no_sensor_data_soft
      [of "(world_sample reading_flame)\<lparr>sensorData := Some \<lparr>success = True, data = None\<rparr>\<rparr>"
          "\<lambda>s. NaN" "''L1''" "[alert_a0]"]
  by (simp add: world_down_def world_sample_def)

section \<open>The lookup and the two writes\<close>

lemma latest_None: "(latest xs = None) = (xs = [])"
  by (induction xs) (auto split: option.splits)

lemma latest_Some:
  "latest xs = Some m \<Longrightarrow> m \<in> set xs \<and> (\<forall>a\<in>set xs. timestamp a \<le> timestamp m)"
proof (induction xs arbitrary: m)
  case Nil
  then show ?case by simp
next
  case (Cons x xs)
  show ?case
  proof (cases "latest xs")
    case None
    then have "xs = []" by (simp add: latest_None)
    with Cons.prems show ?thesis by simp
  next
    case (Some m')
    from Cons.IH [OF Some] have IH: "m' \<in> set xs" "\<forall>a\<in>set xs. timestamp a \<le> timestamp m'"
      by simp_all
    show ?thesis
    proof (cases "timestamp x < timestamp m'")
      case True
      with Some Cons.prems have "m = m'" by simp
      with IH True show ?thesis by auto
    next
      case False
      with Some Cons.prems have "m = x" by simp
      with IH False show ?thesis by fastforce
    qed
  qed
qed

lemma select_existing_None:
  "(select_existing tbl loc since = None) =
     (\<forall>a\<in>set tbl. location_id a = loc \<longrightarrow> timestamp a < since)"
  by (auto simp: select_existing_def latest_None filter_empty_conv not_le)

lemma select_existing_Some:
  assumes "select_existing tbl loc since = Some x"
  shows "x \<in> set tbl \<and> location_id x = loc \<and> since \<le> timestamp x \<and>
     (\<forall>a\<in>set tbl. location_id a = loc \<and> since \<le> timestamp a \<longrightarrow> timestamp a \<le> timestamp x)"
  using latest_Some [OF assms [unfolded select_existing_def]] by auto

lemma single_Some: "single xs = Some x \<Longrightarrow> xs = [x]"
  by (cases xs rule: single.cases) simp_all

lemma distinct_alert_id_eq:
  "distinct (map alert_id tbl) \<Longrightarrow> x \<in> set tbl \<Longrightarrow> a \<in> set tbl \<Longrightarrow>
     alert_id a = alert_id x \<Longrightarrow> a = x"
  by (simp add: distinct_map inj_on_def)

lemma filter_alert_id_distinct:
  "distinct (map alert_id tbl) \<Longrightarrow> x \<in> set tbl \<Longrightarrow>
     filter (\<lambda>a. alert_id a = alert_id x) tbl = [x]"
proof (induction tbl)
  case Nil
  then show ?case by simp
next
  case (Cons y ys)
  show ?case
  proof (cases "x = y")
    case True
    have "alert_id y \<notin> alert_id ` set ys"
      using Cons.prems(1) by simp
    then have "filter (\<lambda>a. alert_id a = alert_id y) ys = []"
      by (simp add: filter_empty_conv image_iff) metis
    with True show ?thesis by simp
  next
    case False
    with Cons.prems have "x \<in> set ys" "alert_id y \<noteq> alert_id x" by auto
    with Cons show ?thesis by simp
  qed
qed

lemma update_existing_ok:
  assumes "writeError w = None" and "distinct (map alert_id tbl)" and "x \<in> set tbl"
  shows "update_existing w tbl x ty sev sv =
     (map (\<lambda>a. if alert_id a = alert_id x
                then a\<lparr>alert_type := ty, severity := sev, sensor_values := sv,
                       timestamp := now_write w\<rparr>
                else a) tbl,
      AlertUpdated (x\<lparr>alert_type := ty, severity := sev, sensor_values := sv,
                      timestamp := now_write w\<rparr>))"
  using assms(1) filter_alert_id_distinct [OF assms(2,3)]
  by (simp add: update_existing_def update_eq_id_def)

lemma insert_new_ok:
  assumes "writeError w = None"
  shows "insert_new w tbl loc ty sev sv =
     (tbl @ [\<lparr>alert_id = new_id w, location_id = loc, alert_type = ty, severity = sev,
               status = ''active'', sensor_values = sv, timestamp = now_write w,
               resolved_at = None, resolved_by = None\<rparr>],
      AlertCreated \<lparr>alert_id = new_id w, location_id = loc, alert_type = ty, severity = sev,
               status = ''active'', sensor_values = sv, timestamp = now_write w,
               resolved_at = None, resolved_by = None\<rparr>)"
  using assms by (simp add: insert_new_def Let_def)

lemma update_existing_severity:
  assumes "update_existing w tbl x ty sev sv = (tbl', r)"
  shows "(\<forall>a. r = AlertCreated a \<or> r = AlertUpdated a \<longrightarrow> severity a = sev) \<and>
     (\<forall>a\<in>set tbl'. a \<in> set tbl \<or> severity a = sev)"
proof (cases "writeError w")
  case (Some err)
  with assms show ?thesis by (auto simp: update_existing_def)
next
  case None
  let ?f = "\<lambda>a. a\<lparr>alert_type := ty, severity := sev, sensor_values := sv,
                    timestamp := now_write w\<rparr>"
  let ?rows = "map ?f (filter (\<lambda>a. alert_id a = alert_id x) tbl)"
  show ?thesis
  proof (cases "single ?rows")
    case None
    with \<open>writeError w = None\<close> assms show ?thesis
      by (auto simp: update_existing_def update_eq_id_def)
  next
    case (Some u)
    then have "u \<in> set ?rows"
      using single_Some [OF Some] by simp
    then have u: "severity u = sev" by auto
    have "tbl' = map (\<lambda>a. if alert_id a = alert_id x then ?f a else a) tbl" "r = AlertUpdated u"
      using Some \<open>writeError w = None\<close> assms
      by (auto simp: update_existing_def update_eq_id_def)
    with u show ?thesis by auto
  qed
qed

lemma insert_new_severity:
  assumes "insert_new w tbl loc ty sev sv = (tbl', r)"
  shows "(\<forall>a. r = AlertCreated a \<or> r = AlertUpdated a \<longrightarrow> severity a = sev) \<and>
     (\<forall>a\<in>set tbl'. a \<in> set tbl \<or> severity a = sev)"
  using assms by (cases "writeError w") (auto simp: insert_new_def Let_def)

lemma threshold_check_flame: "threshold_check S reading_flame = (Some ''fire'', ''critical'')"
  by (simp add: threshold_check_def reading_flame_def)

text \<open>
  For a row that was not stamped later than the lookup's clock reading, being older than
  60 minutes is the same as not lying within the last 60 minutes.
\<close>

lemma older_than_window:
  "timestamp a \<le> now \<Longrightarrow>
     (timestamp a < oneHourAgo now) = (\<not> (now - 3600000 \<le> timestamp a \<and> timestamp a \<le> now))"
  by (auto simp: oneHourAgo_def)

text \<open>
  C2. When a reading is classified and every row of the location is older than 60 minutes
  at the lookup (a row written 61 minutes before it is), the evaluate action appends
  exactly one row, with status active, the time of the write, the classification's type
  and severity, and answers that the alert was created.
\<close>

theorem evaluate_creates:
  assumes "locationError w = None" and "available_sensors w = Some sv"
    and "threshold_check S sv = (Some ty, sev)"
    and "\<forall>a\<in>set tbl. location_id a = loc \<longrightarrow> timestamp a < now_lookup w - 3600000"
    and "writeError w = None"
  shows "evaluate S w loc tbl =
       (tbl @ [\<lparr>alert_id = new_id w, location_id = loc, alert_type = ty, severity = sev,
                 status = ''active'', sensor_values = sv, timestamp = now_write w,
                 resolved_at = None, resolved_by = None\<rparr>],
        AlertCreated \<lparr>alert_id = new_id w, location_id = loc, alert_type = ty,
                 severity = sev, status = ''active'', sensor_values = sv,
                 timestamp = now_write w, resolved_at = None, resolved_by = None\<rparr>) \<and>
     length (filter (\<lambda>a. location_id a = loc) (fst (evaluate S w loc tbl))) =
       length (filter (\<lambda>a. location_id a = loc) tbl) + 1"
proof -
  have "select_existing tbl loc (oneHourAgo (now_lookup w)) = None"
    using assms(4) by (simp add: select_existing_None oneHourAgo_def)
  then have "evaluate S w loc tbl = insert_new w tbl loc ty sev sv"
    using evaluate_classified [OF assms(1-3)] by simp
  then show ?thesis
    using insert_new_ok [OF assms(5)] by simp
qed

theorem evaluate_creates_witness:
  "evaluate (\<lambda>s. NaN) (world_sample reading_flame) ''L1'' [alert_a1] =
     ([alert_a1,
       \<lparr>alert_id = ''a2'', location_id = ''L1'', alert_type = ''fire'',
        severity = ''critical'', status = ''active'', sensor_values = reading_flame,
        timestamp = 10000020, resolved_at = None, resolved_by = None\<rparr>],
      AlertCreated
       \<lparr>alert_id = ''a2'', location_id = ''L1'', alert_type = ''fire'',
        severity = ''critical'', status = ''active'', sensor_values = reading_flame,
        timestamp = 10000020, resolved_at = None, resolved_by = None\<rparr>)"
proof -
  have l: "locationError (world_sample reading_flame) = None"
    by (simp add: world_sample_def)
  have old: "\<forall>a\<in>set [alert_a1]. location_id a = ''L1'' \<longrightarrow>
      timestamp a < now_lookup (world_sample reading_flame) - 3600000"
    by (simp add: alert_a1_def world_sample_def)
  have e: "writeError (world_sample reading_flame) = None"
    by (simp add: world_sample_def)
  show ?thesis
    using evaluate_creates [OF l available_sensors_sample threshold_check_flame old e]
    by (simp add: world_sample_def)
qed

text \<open>
  C3. When a reading is classified and the location has a row that is not older than 60
  minutes at the lookup, whatever its status, the evaluate action rewrites the type, the
  severity, the sensor values and the timestamp of the most recent such row (of that row,
  when it is the only one) and of no other row. No row is added, so the number of the location's rows stays what it was, and
  every row keeps its status, its id and its location.
\<close>

theorem evaluate_updates:
  assumes "locationError w = None" and "available_sensors w = Some sv"
    and "threshold_check S sv = (Some ty, sev)"
    and "\<not> lookupError w" and "writeError w = None"
    and "distinct (map alert_id tbl)"
    and "e \<in> set tbl" and "location_id e = loc"
    and "now_lookup w - 3600000 \<le> timestamp e"
  shows "\<exists>x tbl'.
     evaluate S w loc tbl =
       (tbl', AlertUpdated (x\<lparr>alert_type := ty, severity := sev, sensor_values := sv,
                               timestamp := now_write w\<rparr>)) \<and>
     x \<in> set tbl \<and> location_id x = loc \<and> now_lookup w - 3600000 \<le> timestamp x \<and>
     timestamp e \<le> timestamp x \<and>
     ((\<forall>a\<in>set tbl. location_id a = loc \<and> now_lookup w - 3600000 \<le> timestamp a \<longrightarrow> a = e)
        \<longrightarrow> x = e) \<and>
     tbl' = map (\<lambda>a. if a = x
                      then a\<lparr>alert_type := ty, severity := sev, sensor_values := sv,
                             timestamp := now_write w\<rparr>
                      else a) tbl \<and>
     length tbl' = length tbl \<and>
     length (filter (\<lambda>a. location_id a = loc) tbl') =
       length (filter (\<lambda>a. location_id a = loc) tbl) \<and>
     map status tbl' = map status tbl \<and>
     map alert_id tbl' = map alert_id tbl \<and>
     map location_id tbl' = map location_id tbl"
proof -
  let ?since = "oneHourAgo (now_lookup w)"
  let ?f = "\<lambda>a. a\<lparr>alert_type := ty, severity := sev, sensor_values := sv,
                    timestamp := now_write w\<rparr>"
  have "select_existing tbl loc ?since \<noteq> None"
    using assms(7-9) by (auto simp: select_existing_None oneHourAgo_def)
  then obtain x where x: "select_existing tbl loc ?since = Some x"
    by blast
  note props = select_existing_Some [OF x]
  have x_in: "x \<in> set tbl" and x_loc: "location_id x = loc"
    and x_win: "now_lookup w - 3600000 \<le> timestamp x"
    using props by (simp_all add: oneHourAgo_def)
  have x_max: "timestamp e \<le> timestamp x"
    using props assms(7-9) by (simp add: oneHourAgo_def)
  let ?tbl' = "map (\<lambda>a. if a = x then ?f a else a) tbl"
  have same: "map (\<lambda>a. if alert_id a = alert_id x then ?f a else a) tbl = ?tbl'"
    using distinct_alert_id_eq [OF assms(6) x_in] by (intro map_cong) auto
  have "evaluate S w loc tbl = update_existing w tbl x ty sev sv"
    using evaluate_classified [OF assms(1-3)] assms(4) x by simp
  then have ev: "evaluate S w loc tbl = (?tbl', AlertUpdated (?f x))"
    using update_existing_ok [OF assms(5,6) x_in] same by simp
  have cnt: "length (filter (\<lambda>a. location_id a = loc) ?tbl') =
      length (filter (\<lambda>a. location_id a = loc) tbl)"
    by (induction tbl) simp_all
  have st: "map status ?tbl' = map status tbl"
    and ids: "map alert_id ?tbl' = map alert_id tbl"
    and locs: "map location_id ?tbl' = map location_id tbl"
    by (induction tbl) simp_all
  have only: "x = e"
    if "\<forall>a\<in>set tbl. location_id a = loc \<and> now_lookup w - 3600000 \<le> timestamp a \<longrightarrow> a = e"
    using that x_in x_loc x_win by blast
  show ?thesis
    using ev x_in x_loc x_win x_max only cnt st ids locs
    by (intro exI [of _ x] exI [of _ ?tbl']) simp
qed

theorem evaluate_updates_witness:
  "evaluate (\<lambda>s. NaN) (world_sample reading_flame) ''L1'' [alert_a1, alert_a0] =
     ([alert_a1,
       alert_a0\<lparr>alert_type := ''fire'', severity := ''critical'',
                sensor_values := reading_flame, timestamp := 10000020\<rparr>],
      AlertUpdated
       (alert_a0\<lparr>alert_type := ''fire'', severity := ''critical'',
                 sensor_values := reading_flame, timestamp := 10000020\<rparr>)) \<and>
   status (alert_a0\<lparr>alert_type := ''fire'', severity := ''critical'',
                    sensor_values := reading_flame, timestamp := 10000020\<rparr>) = ''resolved''"
proof -
  have l: "locationError (world_sample reading_flame) = None"
    and k: "\<not> lookupError (world_sample reading_flame)"
    and e: "writeError (world_sample reading_flame) = None"
    by (simp_all add: world_sample_def)
  have d: "distinct (map alert_id [alert_a1, alert_a0])"
    by (simp add: alert_a1_def alert_a0_def)
  have m: "alert_a0 \<in> set [alert_a1, alert_a0]"
    by simp
  have o: "location_id alert_a0 = ''L1''"
    by (simp add: alert_a0_def)
  have r: "now_lookup (world_sample reading_flame) - 3600000 \<le> timestamp alert_a0"
    by (simp add: alert_a0_def world_sample_def)
  have a1: "\<not> now_lookup (world_sample reading_flame) - 3600000 \<le> timestamp alert_a1"
    by (simp add: alert_a1_def world_sample_def)
  have ne: "alert_a1 \<noteq> alert_a0"
    by (simp add: alert_a1_def alert_a0_def)
  have n: "now_write (world_sample reading_flame) = 10000020"
    by (simp add: world_sample_def)
  have s: "status alert_a0 = ''resolved''"
    by (simp add: alert_a0_def)
  from evaluate_updates
    [OF l available_sensors_sample threshold_check_flame k e d m o r, of "\<lambda>s. NaN"]
  obtain x tbl' where
    ev: "evaluate (\<lambda>s. NaN) (world_sample reading_flame) ''L1'' [alert_a1, alert_a0] =
       (tbl', AlertUpdated (x\<lparr>alert_type := ''fire'', severity := ''critical'',
          sensor_values := reading_flame,
          timestamp := now_write (world_sample reading_flame)\<rparr>))"
    and x: "x \<in> set [alert_a1, alert_a0]"
      "now_lookup (world_sample reading_flame) - 3600000 \<le> timestamp x"
    and tbl': "tbl' = map (\<lambda>a. if a = x
         then a\<lparr>alert_type := ''fire'', severity := ''critical'',
                sensor_values := reading_flame,
                timestamp := now_write (world_sample reading_flame)\<rparr>
         else a) [alert_a1, alert_a0]"
    by blast
  from x a1 have "x = alert_a0"
    by auto
  with ev tbl' ne n s show ?thesis
    by simp
qed

text \<open>
  C9. The severity the checks assign is always critical: the row the evaluate action
  reports as created or updated has severity critical, and so has every row of the
  resulting table that was not in the table before.
\<close>

theorem severity_always_critical:
  "snd (threshold_check S sv) = ''critical'' \<and>
   (evaluate S w loc tbl = (tbl', r) \<longrightarrow>
      (\<forall>a. r = AlertCreated a \<or> r = AlertUpdated a \<longrightarrow> severity a = ''critical'') \<and>
      (\<forall>a\<in>set tbl'. a \<in> set tbl \<or> severity a = ''critical''))"
proof (intro conjI impI)
  show "snd (threshold_check S sv) = ''critical''"
    by (rule threshold_check_severity)
next
  assume ev: "evaluate S w loc tbl = (tbl', r)"
  have "(\<forall>a. r = AlertCreated a \<or> r = AlertUpdated a \<longrightarrow> severity a = ''critical'') \<and>
      (\<forall>a\<in>set tbl'. a \<in> set tbl \<or> severity a = ''critical'')"
  proof (cases "locationError w = None \<and>
      (\<exists>sv ty sev. available_sensors w = Some sv \<and> threshold_check S sv = (Some ty, sev))")
    case True
    then obtain sv' ty sev where h: "locationError w = None" "available_sensors w = Some sv'"
      "threshold_check S sv' = (Some ty, sev)"
      by blast
    have sev: "sev = ''critical''"
      using threshold_check_truthy [OF h(3)] by simp
    show ?thesis
    proof (cases "if lookupError w then None
            else select_existing tbl loc (oneHourAgo (now_lookup w))")
      case None
      then have "insert_new w tbl loc ty sev sv' = (tbl', r)"
        using evaluate_classified [OF h] ev by simp
      from insert_new_severity [OF this] sev show ?thesis by simp
    next
      case (Some x)
      then have "update_existing w tbl x ty sev sv' = (tbl', r)"
        using evaluate_classified [OF h] ev by simp
      from update_existing_severity [OF this] sev show ?thesis by simp
    qed
  next
    case False
    then have "locationError w \<noteq> None \<or> available_sensors w = None \<or>
     (\<exists>sv. available_sensors w = Some sv \<and> fst (threshold_check S sv) = None)"
      by (cases "available_sensors w") (auto, metis prod.collapse)
    from evaluate_unclassified [OF this, of loc tbl] ev show ?thesis by auto
  qed
  then show "\<forall>a. r = AlertCreated a \<or> r = AlertUpdated a \<longrightarrow> severity a = ''critical''"
    and "\<forall>a\<in>set tbl'. a \<in> set tbl \<or> severity a = ''critical''"
    by simp_all
qed

lemma evaluate_sample_created:
  "evaluate (\<lambda>s. NaN) (world_sample reading_flame) ''L1'' [alert_a1] =
     ([alert_a1,
       \<lparr>alert_id = ''a2'', location_id = ''L1'', alert_type = ''fire'',
        severity = ''critical'', status = ''active'', sensor_values = reading_flame,
        timestamp = 10000020, resolved_at = None, resolved_by = None\<rparr>],
      AlertCreated
       \<lparr>alert_id = ''a2'', location_id = ''L1'', alert_type = ''fire'',
        severity = ''critical'', status = ''active'', sensor_values = reading_flame,
        timestamp = 10000020, resolved_at = None, resolved_by = None\<rparr>)"
proof -
  have "select_existing [alert_a1] ''L1'' (oneHourAgo (now_lookup (world_sample reading_flame))) = None"
    by (simp add: select_existing_def oneHourAgo_def alert_a1_def world_sample_def)
  moreover have "locationError (world_sample reading_flame) = None"
    by (simp add: world_sample_def)
  ultimately have "evaluate (\<lambda>s. NaN) (world_sample reading_flame) ''L1'' [alert_a1] =
      insert_new (world_sample reading_flame) [alert_a1] ''L1'' ''fire'' ''critical'' reading_flame"
    using evaluate_classified [OF _ available_sensors_sample threshold_check_flame]
    by simp
  then show ?thesis
    by (simp add: insert_new_def Let_def world_sample_def)
qed

theorem severity_always_critical_witness:
  "\<exists>tbl' a.
     evaluate (\<lambda>s. NaN) (world_sample reading_flame) ''L1'' [alert_a1] = (tbl', AlertCreated a) \<and>
     severity a = ''critical'' \<and> severity (last tbl') = ''critical'' \<and>
     snd (threshold_check (\<lambda>s. NaN) reading_flame) = ''critical''"
proof -
  let ?new = "\<lparr>alert_id = ''a2'', location_id = ''L1'', alert_type = ''fire'',
        severity = ''critical'', status = ''active'', sensor_values = reading_flame,
        timestamp = 10000020, resolved_at = None, resolved_by = None\<rparr>"
  note ev = evaluate_sample_created
  from severity_always_critical
    [where S = "\<lambda>s. NaN" and sv = reading_flame and w = "world_sample reading_flame"
       and loc = "''L1''" and tbl = "[alert_a1]" and tbl' = "[alert_a1, ?new]"
       and r = "AlertCreated ?new"]
  have "snd (threshold_check (\<lambda>s. NaN) reading_flame) = ''critical''"
    and "severity ?new = ''critical''"
    and "\<forall>a\<in>set [alert_a1, ?new]. a \<in> set [alert_a1] \<or> severity a = ''critical''"
    using ev by simp_all
  then show ?thesis
    using ev by simp
qed

section \<open>Properties of the update action\<close>

text \<open>
  C4, as the handler has it. An authorised update whose write succeeds sets the status of
  the row with the given id to the requested one; it sets \<^verbatim>\<open>resolved_at\<close> to the time
  of the write and \<^verbatim>\<open>resolved_by\<close> to the caller exactly when the requested status is not
  \<^verbatim>\<open>active\<close>, whatever the status of the row was, and sets both to null when it is
  \<^verbatim>\<open>active\<close>. A request for \<^verbatim>\<open>in_queue\<close> therefore sets both.
\<close>

theorem update_status_resolved_fields:
  assumes "authHeader = Some h" and "h \<noteq> []"
    and "getUser w (remove_first ''Bearer '' h) = Some user"
    and "writeError w = None"
  shows "update_status w authHeader aid st tbl =
     (map (\<lambda>a. if alert_id a = aid
                then a\<lparr>status := st,
                       resolved_at := (if st = ''active'' then None else Some (now_write w)),
                       resolved_by := (if st = ''active'' then None else Some user)\<rparr>
                else a) tbl,
      StatusUpdated)"
  using assms by (simp add: update_status_def update_eq_id_def)

theorem update_status_resolved_fields_witness:
  "update_status (world_sample reading_flame) (Some ''Bearer token'') ''a1'' ''resolved''
       [alert_a1, alert_a0] =
     ([alert_a1\<lparr>status := ''resolved'', resolved_at := Some 10000020,
                 resolved_by := Some ''user-1''\<rparr>, alert_a0], StatusUpdated) \<and>
   update_status (world_sample reading_flame) (Some ''Bearer token'') ''a0'' ''active''
       [alert_a1, alert_a0] =
     ([alert_a1, alert_a0\<lparr>status := ''active'', resolved_at := None, resolved_by := None\<rparr>],
      StatusUpdated)"
proof -
  have h: "''Bearer token'' \<noteq> []"
    by simp
  have u: "getUser (world_sample reading_flame) (remove_first ''Bearer '' ''Bearer token'') =
      Some ''user-1''"
    by (simp add: world_sample_def)
  have e: "writeError (world_sample reading_flame) = None"
    by (simp add: world_sample_def)
  show ?thesis
    using
      update_status_resolved_fields [OF refl h u e, of "''a1''" "''resolved''" "[alert_a1, alert_a0]"]
      update_status_resolved_fields [OF refl h u e, of "''a0''" "''active''" "[alert_a1, alert_a0]"]
    by (simp add: world_sample_def alert_a1_def alert_a0_def)
qed

text \<open>
  The claim C4 as it is written fails: an authorised request that moves the active alert
  \<open>a1\<close> to \<^verbatim>\<open>in_queue\<close>, a status that is still open, stamps \<^verbatim>\<open>resolved_at\<close> and
  \<^verbatim>\<open>resolved_by\<close>.
\<close>

theorem in_queue_sets_resolved_counterexample:
  "update_status (world_sample reading_flame) (Some ''Bearer token'') ''a1'' ''in_queue''
       [alert_a1] =
     ([alert_a1\<lparr>status := ''in_queue'', resolved_at := Some 10000020,
                 resolved_by := Some ''user-1''\<rparr>], StatusUpdated) \<and>
   status alert_a1 = ''active'' \<and> resolved_at alert_a1 = None \<and> resolved_by alert_a1 = None"
  by (simp add: update_status_def update_eq_id_def world_sample_def alert_a1_def)

section \<open>The handler's dispatch\<close>

lemma serve_evaluate:
  "http_method req \<noteq> ''OPTIONS'' \<Longrightarrow> action req = ''evaluate'' \<Longrightarrow>
     serve S w req tbl = evaluate S w (locationId req) tbl"
  by (simp add: serve_def)

lemma serve_update:
  "http_method req \<noteq> ''OPTIONS'' \<Longrightarrow> action req = ''update'' \<Longrightarrow>
     serve S w req tbl = update_status w (authorization req) (alertId req) (new_status req) tbl"
  by (simp add: serve_def)

section \<open>Properties of the notification listeners\<close>

lemma handleAlert_effects: "effects (fst (handleAlert s a u)) = effects s"
  by (simp add: handleAlert_def Let_def)

lemma handleAlert_shown:
  "r_id a \<in> shownAlerts s \<Longrightarrow> handleAlert s a False = (s, None)"
  by (simp add: handleAlert_def Let_def)

lemma handleAlert_fresh:
  assumes "r_id a \<notin> shownAlerts s"
    and "r_status a \<noteq> Some ''solved''" and "r_status a \<noteq> Some ''unsolved''"
  shows "handleAlert s a False = (s\<lparr>shownAlerts := insert (r_id a) (shownAlerts s)\<rparr>, Some a)"
  using assms by (simp add: handleAlert_def Let_def)

lemma show_calls_append: "show_calls k (xs @ ys) = show_calls k xs + show_calls k ys"
  by (simp add: show_calls_def)

lemma audio_calls_append: "audio_calls (xs @ ys) = audio_calls xs + audio_calls ys"
  by (simp add: audio_calls_def)

text \<open>
  Two deliveries of an insert event for a live alert that is not yet shown: after them
  one handler waits, and when it resumes, before or after the second delivery, none is
  left. The toast and the sound are made once if the severity is not null, and not at all
  if it is.
\<close>

lemma run_deliver_twice:
  assumes "r_id a \<notin> shownAlerts s"
    and "r_status a \<noteq> Some ''solved''" and "r_status a \<noteq> Some ''unsolved''"
  shows "run (s, []) [Deliver (a, False), Deliver (a, False)] =
     (s\<lparr>shownAlerts := insert (r_id a) (shownAlerts s)\<rparr>, [a])"
  using handleAlert_fresh [OF assms] by (simp add: handleAlert_shown)

lemma run_twice_then_resume:
  assumes "r_id a \<notin> shownAlerts s"
    and "r_status a \<noteq> Some ''solved''" and "r_status a \<noteq> Some ''unsolved''"
  shows "run (s, []) [Deliver (a, False), Deliver (a, False), Resume 0 loc h] =
     (s\<lparr>shownAlerts := insert (r_id a) (shownAlerts s),
         effects := effects s @
           (case r_severity a of
              None \<Rightarrow> []
            | Some sev \<Rightarrow>
                [Toast h (r_id a) (title_of (r_alert_type a)) (locationName loc) sev,
                 PlayAudio])\<rparr>, [])"
  using handleAlert_fresh [OF assms]
  by (cases "r_severity a") (simp_all add: handleAlert_shown handleAlert_resume_def)

lemma run_resume_between:
  assumes "r_id a \<notin> shownAlerts s"
    and "r_status a \<noteq> Some ''solved''" and "r_status a \<noteq> Some ''unsolved''"
  shows "run (s, []) [Deliver (a, False), Resume 0 loc h, Deliver (a, False)] =
     (s\<lparr>shownAlerts := insert (r_id a) (shownAlerts s),
         effects := effects s @
           (case r_severity a of
              None \<Rightarrow> []
            | Some sev \<Rightarrow>
                [Toast h (r_id a) (title_of (r_alert_type a)) (locationName loc) sev,
                 PlayAudio])\<rparr>, [])"
  using handleAlert_fresh [OF assms]
  by (cases "r_severity a") (simp_all add: handleAlert_shown handleAlert_resume_def)

lemma run_shown_once:
  assumes "r_id a \<notin> shownAlerts s"
    and "r_status a \<noteq> Some ''solved''" and "r_status a \<noteq> Some ''unsolved''"
    and "r_severity a = Some sev"
    and "steps = [Deliver (a, False), Deliver (a, False), Resume 0 loc h] \<or>
         steps = [Deliver (a, False), Resume 0 loc h, Deliver (a, False)]"
  shows "show_calls (r_id a) (effects (fst (run (s, []) steps))) =
       show_calls (r_id a) (effects s) + 1 \<and>
     audio_calls (effects (fst (run (s, []) steps))) = audio_calls (effects s) + 1 \<and>
     snd (run (s, []) steps) = [] \<and>
     r_id a \<in> shownAlerts (fst (run (s, []) steps))"
  using assms(4,5) run_twice_then_resume [OF assms(1-3), of loc h]
    run_resume_between [OF assms(1-3), of loc h]
  by (auto simp: show_calls_def audio_calls_def)

lemma handleAlert_h_shown:
  "r_id a \<in> shownAlerts s \<Longrightarrow> status_or_active (r_status a) \<in> {''active'', ''in_queue''} \<Longrightarrow>
     handleAlert_h s (Some a) = (s, None)"
  by (auto simp: handleAlert_h_def Let_def)

lemma handleAlert_h_fresh:
  assumes "r_id a \<notin> shownAlerts s"
    and "status_or_active (r_status a) \<in> {''active'', ''in_queue''}"
  shows "handleAlert_h s (Some a) = (s\<lparr>shownAlerts := insert (r_id a) (shownAlerts s)\<rparr>, Some a)"
  using assms by (auto simp: handleAlert_h_def Let_def)

lemma run_h_deliver_twice:
  assumes "r_id a \<notin> shownAlerts s"
    and "status_or_active (r_status a) \<in> {''active'', ''in_queue''}"
  shows "run_h (s, []) [Deliver (Some a), Deliver (Some a)] =
     (s\<lparr>shownAlerts := insert (r_id a) (shownAlerts s)\<rparr>, [a])"
  using handleAlert_h_fresh [OF assms] assms(2) by (simp add: handleAlert_h_shown)

lemma run_h_twice_then_resume:
  assumes "r_id a \<notin> shownAlerts s"
    and "status_or_active (r_status a) \<in> {''active'', ''in_queue''}"
  shows "run_h (s, []) [Deliver (Some a), Deliver (Some a), Resume 0 loc h] =
     (s\<lparr>shownAlerts := insert (r_id a) (shownAlerts s),
         effects := effects s @
           [Toast h (r_id a) (title_of (r_alert_type a)) (locationName loc)
              (case r_severity a of None \<Rightarrow> [] | Some sev \<Rightarrow> sev), PlayAudio],
         alertToasts := (alertToasts s)(r_id a \<mapsto> h)\<rparr>, [])"
  using handleAlert_h_fresh [OF assms] assms(2)
  by (simp add: handleAlert_h_shown handleAlert_h_resume_def)

lemma run_h_resume_between:
  assumes "r_id a \<notin> shownAlerts s"
    and "status_or_active (r_status a) \<in> {''active'', ''in_queue''}"
  shows "run_h (s, []) [Deliver (Some a), Resume 0 loc h, Deliver (Some a)] =
     (s\<lparr>shownAlerts := insert (r_id a) (shownAlerts s),
         effects := effects s @
           [Toast h (r_id a) (title_of (r_alert_type a)) (locationName loc)
              (case r_severity a of None \<Rightarrow> [] | Some sev \<Rightarrow> sev), PlayAudio],
         alertToasts := (alertToasts s)(r_id a \<mapsto> h)\<rparr>, [])"
  using handleAlert_h_fresh [OF assms] assms(2)
  by (simp add: handleAlert_h_shown handleAlert_h_resume_def)

lemma run_h_shown_once:
  assumes "r_id a \<notin> shownAlerts s"
    and "status_or_active (r_status a) \<in> {''active'', ''in_queue''}"
    and "steps = [Deliver (Some a), Deliver (Some a), Resume 0 loc h] \<or>
         steps = [Deliver (Some a), Resume 0 loc h, Deliver (Some a)]"
  shows "show_calls (r_id a) (effects (fst (run_h (s, []) steps))) =
       show_calls (r_id a) (effects s) + 1 \<and>
     audio_calls (effects (fst (run_h (s, []) steps))) = audio_calls (effects s) + 1 \<and>
     snd (run_h (s, []) steps) = [] \<and>
     r_id a \<in> shownAlerts (fst (run_h (s, []) steps))"
  using assms(3) run_h_twice_then_resume [OF assms(1,2), of loc h]
    run_h_resume_between [OF assms(1,2), of loc h]
  by (auto simp: show_calls_def audio_calls_def)


text \<open>
  C5, as the listeners have it. For an event whose status is resolved, unsolved or
  false_alarm, the listener that keeps the handles removes the alert from its shown set
  and from its handles, and calls \<^verbatim>\<open>dismiss\<close> exactly when it holds a handle for the alert;
  the listener keyed by location calls \<^verbatim>\<open>toast.dismiss\<close> with the key and removes the key,
  unconditionally. The listener of \<^verbatim>\<open>GlobalAlertListener.tsx\<close> never calls a dismiss: a
  delivery has no effect on the presentation layer, a resumed handler adds no dismiss, and
  an update event with status solved or unsolved only removes the alert from the shown set.
\<close>

theorem closed_status_dismiss:
  "(status_or_active (r_status a) \<in> {''resolved'', ''unsolved'', ''false_alarm''} \<longrightarrow>
      handleAlert_h t (Some a) =
        (t\<lparr>shownAlerts := shownAlerts t - {r_id a},
            effects := effects t @
              (case alertToasts t (r_id a) of None \<Rightarrow> [] | Some existing \<Rightarrow> [Dismiss existing]),
            alertToasts := (alertToasts t)(r_id a := None)\<rparr>, None) \<and>
      showAlertToast l (Some a) =
        (l\<lparr>shownLocations := shownLocations l - {r_location_id a},
            effects_l := effects_l l @ [DismissKey (r_location_id a)]\<rparr>, None)) \<and>
   effects (fst (handleAlert s a u)) = effects s \<and>
   filter is_dismiss (effects (handleAlert_resume s a loc h)) = filter is_dismiss (effects s) \<and>
   (r_status a \<in> {Some ''solved'', Some ''unsolved''} \<longrightarrow>
      handleAlert s a True = (s\<lparr>shownAlerts := shownAlerts s - {r_id a}\<rparr>, None))"
proof (intro conjI impI)
  assume c: "status_or_active (r_status a) \<in> {''resolved'', ''unsolved'', ''false_alarm''}"
  show "handleAlert_h t (Some a) =
        (t\<lparr>shownAlerts := shownAlerts t - {r_id a},
            effects := effects t @
              (case alertToasts t (r_id a) of None \<Rightarrow> [] | Some existing \<Rightarrow> [Dismiss existing]),
            alertToasts := (alertToasts t)(r_id a := None)\<rparr>, None)"
  proof (cases "alertToasts t (r_id a)")
    case None
    then have "(alertToasts t)(r_id a := None) = alertToasts t"
      by (simp add: fun_upd_idem)
    with None c show ?thesis
      by (auto simp: handleAlert_h_def Let_def)
  next
    case (Some existing)
    with c show ?thesis
      by (auto simp: handleAlert_h_def Let_def)
  qed
  show "showAlertToast l (Some a) =
        (l\<lparr>shownLocations := shownLocations l - {r_location_id a},
            effects_l := effects_l l @ [DismissKey (r_location_id a)]\<rparr>, None)"
    using c by (auto simp: showAlertToast_def Let_def)
next
  show "effects (fst (handleAlert s a u)) = effects s"
    by (rule handleAlert_effects)
next
  show "filter is_dismiss (effects (handleAlert_resume s a loc h)) = filter is_dismiss (effects s)"
    by (simp add: handleAlert_resume_def split: option.splits)
next
  assume "r_status a \<in> {Some ''solved'', Some ''unsolved''}"
  then show "handleAlert s a True = (s\<lparr>shownAlerts := shownAlerts s - {r_id a}\<rparr>, None)"
    by (auto simp: handleAlert_def Let_def)
qed

theorem closed_status_dismiss_witness:
  "handleAlert_h listener_h_shown (Some (row_r1\<lparr>r_status := Some ''resolved''\<rparr>)) =
     (\<lparr>shownAlerts = {},
       effects = [Toast 7 ''a1'' FIRE_DETECTED ''Hall'' ''critical'', PlayAudio, Dismiss 7],
       alertToasts = Map.empty\<rparr>, None) \<and>
   handleAlert_h listener_h_empty (Some (row_r1\<lparr>r_status := Some ''resolved''\<rparr>)) =
     (listener_h_empty, None) \<and>
   showAlertToast \<lparr>shownLocations = {}, effects_l = []\<rparr>
       (Some (row_r1\<lparr>r_status := Some ''false_alarm''\<rparr>)) =
     (\<lparr>shownLocations = {}, effects_l = [DismissKey ''L1'']\<rparr>, None) \<and>
   handleAlert listener_shown (row_r1\<lparr>r_status := Some ''solved''\<rparr>) True =
     (\<lparr>shownAlerts = {},
       effects = [Toast 7 ''a1'' FIRE_DETECTED ''Hall'' ''critical'', PlayAudio]\<rparr>, None)"
  using
    closed_status_dismiss
      [where a = "row_r1\<lparr>r_status := Some ''resolved''\<rparr>" and t = listener_h_shown]
    closed_status_dismiss
      [where a = "row_r1\<lparr>r_status := Some ''resolved''\<rparr>" and t = listener_h_empty]
    closed_status_dismiss
      [where a = "row_r1\<lparr>r_status := Some ''false_alarm''\<rparr>"
         and l = "\<lparr>shownLocations = {}, effects_l = []\<rparr>"]
    closed_status_dismiss
      [where a = "row_r1\<lparr>r_status := Some ''solved''\<rparr>" and s = listener_shown and u = True]
  by (simp add: row_r1_def listener_h_shown_def listener_h_empty_def listener_shown_def)

text \<open>
  The claim C5 as it is written fails in \<^verbatim>\<open>GlobalAlertListener.tsx\<close>: for the shown alert
  \<open>a1\<close>, an update event with status resolved changes nothing, and one with status
  unsolved removes the alert from the shown set; neither calls a dismiss.
\<close>

theorem closed_update_without_dismiss_counterexample:
  "handleAlert listener_shown (row_r1\<lparr>r_status := Some ''resolved''\<rparr>) True =
     (listener_shown, None) \<and>
   handleAlert listener_shown (row_r1\<lparr>r_status := Some ''unsolved''\<rparr>) True =
     (\<lparr>shownAlerts = {},
       effects = [Toast 7 ''a1'' FIRE_DETECTED ''Hall'' ''critical'', PlayAudio]\<rparr>, None) \<and>
   shownAlerts listener_shown = {''a1''} \<and>
   effects listener_shown = [Toast 7 ''a1'' FIRE_DETECTED ''Hall'' ''critical'', PlayAudio]"
  by (simp add: handleAlert_def listener_shown_def row_r1_def)

end
